theory Spec2Isabelle
  imports Complex_Main
begin

section \<open>Data model\<close>

text \<open>
  The program is TypeScript on top of three.js. Every JavaScript \<open>number\<close> and every GLSL
  \<open>float\<close> is modelled as a \<^typ>\<open>real\<close>: arithmetic is exact, rounding of IEEE doubles
  and of the \<open>Float32Array\<close> buffers is not part of the model. \<open>Math.random()\<close> is
  modelled as an explicit source of draws, a function from the number of the draw to its
  value; the documented range of a draw (\<open>0 \<le> r < 1\<close>) is a hypothesis where it is needed.
\<close>

text \<open>\<open>types.ts\<close>: \<open>enum TreeState\<close>.\<close>

datatype TreeState = CHAOS | FORMED

text \<open>\<open>THREE.Vector3\<close> and \<open>THREE.Euler\<close>, by their three numeric fields.\<close>

record Vector3 =
  vx :: real
  vy :: real
  vz :: real

record Euler =
  ex :: real
  ey :: real
  ez :: real

text \<open>
  \<open>THREE.Color\<close>, by the CSS hex string it was set from; a fresh \<open>new THREE.Color()\<close> is
  white.
\<close>

type_synonym Color = string

definition newColor :: Color where
  "newColor = ''#ffffff''"

text \<open>\<open>types.ts\<close>: \<open>interface OrnamentData\<close>.\<close>

record OrnamentData =
  chaosPos :: Vector3
  targetPos :: Vector3
  targetRot :: Euler
  color :: Color
  scale :: real
  speed :: real

text \<open>The second parameter of \<open>generateOrnamentData\<close>: \<open>'ball' | 'box' | 'light'\<close>.\<close>

datatype OrnamentType = ball_type | box_type | light_type

text \<open>
  \<open>THREE.Matrix4\<close>. \<open>Object3D.updateMatrix()\<close> sets the matrix to
  \<open>compose(position, quaternion, scale)\<close>, the quaternion being the one of the Euler
  rotation; the model keeps the three arguments the matrix is composed from.
\<close>

datatype Matrix4 = Compose Vector3 Euler Vector3

text \<open>\<open>THREE.Object3D\<close>, the fields the source uses.\<close>

record Object3D =
  position :: Vector3
  rotation :: Euler
  objScale :: Vector3
  matrix :: Matrix4

text \<open>
  \<open>THREE.InstancedMesh\<close>: one matrix per instance, and one colour per instance in a
  buffer that is \<open>null\<close> (\<open>None\<close>) until the first \<open>setColorAt\<close> creates it; each buffer
  has its \<open>needsUpdate\<close> flag.
\<close>

record InstancedMesh =
  instanceMatrix :: "Matrix4 list"
  matrixNeedsUpdate :: bool
  instanceColor :: "Color list option"
  colorNeedsUpdate :: bool

text \<open>
  The state of the \<open>Ornaments\<close> component: the three memoised tables, the progress ref,
  the three mesh refs (\<open>None\<close> while a ref is still \<open>null\<close>), and the module's scratch
  objects \<open>tempVec3\<close> and \<open>dummy\<close>.
\<close>

record OrnamentsState =
  balls :: "OrnamentData list"
  boxes :: "OrnamentData list"
  lights :: "OrnamentData list"
  currentProgress :: real
  ballMesh :: "InstancedMesh option"
  boxMesh :: "InstancedMesh option"
  lightMesh :: "InstancedMesh option"
  tempVec3 :: Vector3
  dummy :: Object3D

text \<open>
  The state of the \<open>TreeFoliage\<close> component: the three memoised attribute buffers (flat
  arrays, three numbers per particle in the first two), the progress ref, and the two
  uniforms of the material the frame callback writes (\<open>None\<close> while \<open>materialRef\<close> is
  \<open>null\<close>).
\<close>

record FoliageGeometry =
  chaosPositions :: "real list"
  targetPositions :: "real list"
  randoms :: "real list"

record FoliageUniforms =
  uTime :: real
  uProgress :: real

record FoliageState =
  geometry :: FoliageGeometry
  foliageProgress :: real
  material :: "FoliageUniforms option"

section \<open>Library functions of three.js and GLSL used by the source\<close>

text \<open>\<open>THREE.MathUtils.lerp(x, y, t)\<close> returns \<open>(1 - t) * x + t * y\<close>.\<close>

definition lerp :: "real \<Rightarrow> real \<Rightarrow> real \<Rightarrow> real" where
  "lerp x y t = (1 - t) * x + t * y"

text \<open>\<open>THREE.MathUtils.clamp(value, min, max)\<close> returns \<open>Math.max(min, Math.min(max, value))\<close>.\<close>

definition clamp :: "real \<Rightarrow> real \<Rightarrow> real \<Rightarrow> real" where
  "clamp val lo hi = max lo (min hi val)"

text \<open>\<open>Vector3.lerpVectors(v1, v2, alpha)\<close> sets each field to \<open>v1 + (v2 - v1) * alpha\<close>.\<close>

definition lerpVectors :: "Vector3 \<Rightarrow> Vector3 \<Rightarrow> real \<Rightarrow> Vector3" where
  "lerpVectors v1 v2 alpha =
     \<lparr>vx = vx v1 + (vx v2 - vx v1) * alpha,
      vy = vy v1 + (vy v2 - vy v1) * alpha,
      vz = vz v1 + (vz v2 - vz v1) * alpha\<rparr>"

text \<open>\<open>Vector3.setScalar(s)\<close>, \<open>Euler.set(x, y, z)\<close>, \<open>Object3D.updateMatrix()\<close>.\<close>

definition setScalar :: "real \<Rightarrow> Vector3" where
  "setScalar s = \<lparr>vx = s, vy = s, vz = s\<rparr>"

definition rotationSet :: "real \<Rightarrow> real \<Rightarrow> real \<Rightarrow> Euler" where
  "rotationSet x y z = \<lparr>ex = x, ey = y, ez = z\<rparr>"

definition updateMatrix :: "Object3D \<Rightarrow> Object3D" where
  "updateMatrix obj = obj\<lparr>matrix := Compose (position obj) (rotation obj) (objScale obj)\<rparr>"

text \<open>
  \<open>InstancedMesh.setMatrixAt(i, m)\<close> and \<open>setColorAt(i, c)\<close> write into a typed array at
  the instance's offset; a typed array ignores a write beyond its length, as
  \<open>list_update\<close> does. \<open>setColorAt\<close> first creates a missing colour buffer, one
  colour per instance matrix, filled with ones (white).
\<close>

definition setMatrixAt :: "nat \<Rightarrow> Matrix4 \<Rightarrow> InstancedMesh \<Rightarrow> InstancedMesh" where
  "setMatrixAt i m mesh = mesh\<lparr>instanceMatrix := (instanceMatrix mesh)[i := m]\<rparr>"

definition setColorAt :: "nat \<Rightarrow> Color \<Rightarrow> InstancedMesh \<Rightarrow> InstancedMesh" where
  "setColorAt i c mesh =
     (let buffer = (case instanceColor mesh of
                      None \<Rightarrow> replicate (length (instanceMatrix mesh)) newColor
                    | Some colors \<Rightarrow> colors)
      in mesh\<lparr>instanceColor := Some (buffer[i := c])\<rparr>)"

text \<open>
  \<open>Array.prototype.forEach\<close> with the callback's index argument; the callback acts on the
  state passed along.
\<close>

primrec forEachFrom :: "('a \<Rightarrow> nat \<Rightarrow> 's \<Rightarrow> 's) \<Rightarrow> 'a list \<Rightarrow> nat \<Rightarrow> 's \<Rightarrow> 's" where
  "forEachFrom f [] i s = s"
| "forEachFrom f (x # xs) i s = forEachFrom f xs (Suc i) (f x i s)"

definition forEach :: "('a \<Rightarrow> nat \<Rightarrow> 's \<Rightarrow> 's) \<Rightarrow> 'a list \<Rightarrow> 's \<Rightarrow> 's" where
  "forEach f xs s = forEachFrom f xs 0 s"

text \<open>
  GLSL: \<open>mix(x, y, a)\<close> is \<open>x * (1 - a) + y * a\<close> on each component; \<open>pow(x, y)\<close> is
  undefined for \<open>x < 0\<close>, and for \<open>x = 0\<close> with \<open>y \<le> 0\<close>.
\<close>

definition mix :: "Vector3 \<Rightarrow> Vector3 \<Rightarrow> real \<Rightarrow> Vector3" where
  "mix a b t =
     \<lparr>vx = vx a * (1 - t) + vx b * t,
      vy = vy a * (1 - t) + vy b * t,
      vz = vz a * (1 - t) + vz b * t\<rparr>"

definition pow :: "real \<Rightarrow> real \<Rightarrow> real option" where
  "pow x y = (if x < 0 \<or> (x = 0 \<and> y \<le> 0) then None else Some (x powr y))"

definition vadd :: "Vector3 \<Rightarrow> Vector3 \<Rightarrow> Vector3" where
  "vadd a b = \<lparr>vx = vx a + vx b, vy = vy a + vy b, vz = vz a + vz b\<rparr>"

definition vscale :: "Vector3 \<Rightarrow> real \<Rightarrow> Vector3" where
  "vscale a k = \<lparr>vx = vx a * k, vy = vy a * k, vz = vz a * k\<rparr>"

section \<open>Progress controllers\<close>

text \<open>
  Both components compute the target from the mode
  (\<open>treeState === TreeState.FORMED ? 1 : 0\<close>) and move the stored progress towards it by
  one \<open>lerp\<close> step per frame; neither clamps the result.
\<close>

definition tTarget :: "TreeState \<Rightarrow> real" where
  "tTarget treeState = (if treeState = FORMED then 1 else 0)"

text \<open>\<open>Ornaments\<close>, \<open>useFrame\<close>: \<open>lerp(currentProgress.current, tTarget, delta * 0.8)\<close>.\<close>

definition ornamentsAdvance :: "TreeState \<Rightarrow> real \<Rightarrow> real \<Rightarrow> real" where
  "ornamentsAdvance treeState delta cur = lerp cur (tTarget treeState) (delta * 0.8)"

text \<open>\<open>TreeFoliage\<close>, \<open>useFrame\<close>: \<open>lerp(currentProgress.current, targetProgress, delta * 1.5)\<close>.\<close>

definition foliageAdvance :: "TreeState \<Rightarrow> real \<Rightarrow> real \<Rightarrow> real" where
  "foliageAdvance treeState delta cur = lerp cur (tTarget treeState) (delta * 1.5)"

text \<open>
  Repeated calls with a fixed mode and a fixed \<open>delta\<close>: the progress after \<open>n\<close> calls,
  and its distance to the target.
\<close>

definition progressAfter ::
  "(TreeState \<Rightarrow> real \<Rightarrow> real \<Rightarrow> real) \<Rightarrow> TreeState \<Rightarrow> real \<Rightarrow> nat \<Rightarrow> real \<Rightarrow> real" where
  "progressAfter advance treeState delta n start = (advance treeState delta ^^ n) start"

definition distanceAfter ::
  "(TreeState \<Rightarrow> real \<Rightarrow> real \<Rightarrow> real) \<Rightarrow> TreeState \<Rightarrow> real \<Rightarrow> nat \<Rightarrow> real \<Rightarrow> real" where
  "distanceAfter advance treeState delta n start =
     \<bar>progressAfter advance treeState delta n start - tTarget treeState\<bar>"

section \<open>Particle generation\<close>

text \<open>Constants of \<open>Ornaments\<close> and \<open>TreeFoliage\<close> (both files give the tree the same size).\<close>

definition BALL_COUNT :: int where "BALL_COUNT = 200"
definition BOX_COUNT :: int where "BOX_COUNT = 50"
definition LIGHT_COUNT :: int where "LIGHT_COUNT = 300"
definition COUNT :: nat where "COUNT = 15000"
definition TREE_HEIGHT :: real where "TREE_HEIGHT = 16"
definition TREE_RADIUS :: real where "TREE_RADIUS = 6"

definition palette :: "Color list" where
  "palette = [''#D4AF37'', ''#800000'', ''#C0C0C0'', ''#B8860B'']"

text \<open>
  \<open>color.set(palette[Math.floor(r * palette.length)])\<close>: an index outside the array reads
  \<open>undefined\<close>, and \<open>Color.set(undefined)\<close> leaves the fresh colour as it is.
\<close>

definition paletteColor :: "real \<Rightarrow> Color" where
  "paletteColor r =
     (let idx = \<lfloor>r * real (length palette)\<rfloor>
      in if 0 \<le> idx \<and> idx < int (length palette) then palette ! nat idx else newColor)"

text \<open>
  The body of the loop of \<open>generateOrnamentData\<close>. The draws of \<open>Math.random()\<close> are taken
  from \<open>random\<close> in the order the source makes them, starting at draw number \<open>k\<close>; the
  result is the record pushed and the number of the next draw (a light makes eight
  draws, a ball or a box nine).
\<close>

definition generateOrnament :: "OrnamentType \<Rightarrow> (nat \<Rightarrow> real) \<Rightarrow> nat \<Rightarrow> OrnamentData \<times> nat" where
  "generateOrnament type random k =
     (let u = random k;
          v = random (k + 1);
          theta = 2 * pi * u;
          phi = arccos (2 * v - 1);
          rChaos = 20 + random (k + 2) * 15;
          chaosPos = \<lparr>vx = rChaos * sin phi * cos theta,
                      vy = rChaos * sin phi * sin theta + 10,
                      vz = rChaos * cos phi\<rparr>;
          hNorm = random (k + 3);
          y = hNorm * TREE_HEIGHT;
          rCone = (1 - hNorm) * TREE_RADIUS;
          spiralAngle = hNorm * pi * 10 + (random (k + 4) * pi * 2);
          rFinal = rCone * (if type = light_type then 1.05 else 0.9);
          targetPos = \<lparr>vx = cos spiralAngle * rFinal, vy = y, vz = sin spiralAngle * rFinal\<rparr>;
          targetRot = \<lparr>ex = random (k + 5) * pi, ey = random (k + 6) * pi, ez = random (k + 7) * pi\<rparr>;
          color = (if type = light_type then ''#ffccaa'' else paletteColor (random (k + 8)));
          k' = (if type = light_type then k + 8 else k + 9);
          speed = (if type = light_type then 2.0 else if type = ball_type then 1.5 else 0.8);
          scale = (if type = light_type then 0.1 else if type = ball_type then 0.25 else 0.35)
      in (\<lparr>chaosPos = chaosPos, targetPos = targetPos, targetRot = targetRot,
           color = color, scale = scale, speed = speed\<rparr>, k'))"

text \<open>\<open>for (let i = 0; i < count; i++) { ...; data.push(...) }\<close>\<close>

function generateLoop ::
  "int \<Rightarrow> OrnamentType \<Rightarrow> (nat \<Rightarrow> real) \<Rightarrow> int \<Rightarrow> nat \<Rightarrow> OrnamentData list \<Rightarrow> OrnamentData list" where
  "generateLoop count type random i k data =
     (if i < count
      then generateLoop count type random (i + 1) (snd (generateOrnament type random k))
             (data @ [fst (generateOrnament type random k)])
      else data)"
  by pat_completeness auto
termination
  by (relation "measure (\<lambda>(count, type, random, i, k, data). nat (count - i))") auto

declare generateLoop.simps [simp del]

definition generateOrnamentData :: "int \<Rightarrow> OrnamentType \<Rightarrow> (nat \<Rightarrow> real) \<Rightarrow> OrnamentData list" where
  "generateOrnamentData count type random = generateLoop count type random 0 0 []"

text \<open>
  The body of the loop of the \<open>useMemo\<close> of \<open>TreeFoliage\<close>: seven draws for particle \<open>i\<close>,
  written into the three buffers at \<open>i * 3\<close>, \<open>i * 3 + 1\<close>, \<open>i * 3 + 2\<close> and at \<open>i\<close>.
\<close>

definition generateNeedle :: "(nat \<Rightarrow> real) \<Rightarrow> nat \<Rightarrow> nat \<Rightarrow> FoliageGeometry \<Rightarrow> FoliageGeometry" where
  "generateNeedle random k i g =
     (let i3 = i * 3;
          u = random k;
          v = random (k + 1);
          theta = 2 * pi * u;
          phi = arccos (2 * v - 1);
          r = 25 * root 3 (random (k + 2));
          chaos = (chaosPositions g)
                    [i3 := r * sin phi * cos theta,
                     i3 + 1 := r * sin phi * sin theta + 10,
                     i3 + 2 := r * cos phi];
          hNorm = random (k + 3);
          y = hNorm * TREE_HEIGHT;
          rCone = (1 - hNorm) * TREE_RADIUS;
          angle = random (k + 4) * pi * 2;
          rFinal = sqrt (random (k + 5)) * rCone;
          target = (targetPositions g)
                     [i3 := cos angle * rFinal,
                      i3 + 1 := y,
                      i3 + 2 := sin angle * rFinal];
          rands = (randoms g)[i := random (k + 6)]
      in \<lparr>chaosPositions = chaos, targetPositions = target, randoms = rands\<rparr>)"

function foliageLoop :: "nat \<Rightarrow> (nat \<Rightarrow> real) \<Rightarrow> nat \<Rightarrow> nat \<Rightarrow> FoliageGeometry \<Rightarrow> FoliageGeometry" where
  "foliageLoop count random i k g =
     (if i < count
      then foliageLoop count random (i + 1) (k + 7) (generateNeedle random k i g)
      else g)"
  by pat_completeness auto
termination
  by (relation "measure (\<lambda>(count, random, i, k, g). count - i)") auto

declare foliageLoop.simps [simp del]

text \<open>
  The whole \<open>useMemo\<close>, with the particle count as a parameter: three zero-filled
  \<open>Float32Array\<close>s of \<open>count * 3\<close>, \<open>count * 3\<close> and \<open>count\<close> numbers, then the loop. The
  component calls it with \<open>COUNT\<close>.
\<close>

definition generateFoliage :: "nat \<Rightarrow> (nat \<Rightarrow> real) \<Rightarrow> FoliageGeometry" where
  "generateFoliage count random =
     foliageLoop count random 0 0
       \<lparr>chaosPositions = replicate (count * 3) 0,
        targetPositions = replicate (count * 3) 0,
        randoms = replicate count 0\<rparr>"

definition foliageGeometry :: "(nat \<Rightarrow> real) \<Rightarrow> FoliageGeometry" where
  "foliageGeometry random = generateFoliage COUNT random"

text \<open>Particle \<open>i\<close> of the buffers, as the \<open>itemSize = 3\<close> attributes present it to the shader.\<close>

definition attribute3 :: "real list \<Rightarrow> nat \<Rightarrow> Vector3" where
  "attribute3 buf i = \<lparr>vx = buf ! (i * 3), vy = buf ! (i * 3 + 1), vz = buf ! (i * 3 + 2)\<rparr>"

section \<open>The foliage vertex shader\<close>

definition easeOutCubic :: "real \<Rightarrow> real option" where
  "easeOutCubic x = map_option (\<lambda>p. 1.0 - p) (pow (1.0 - x) 3.0)"

definition noise :: "real \<Rightarrow> real \<Rightarrow> Vector3" where
  "noise time aRandom =
     \<lparr>vx = sin (time * 2.0 + aRandom * 100.0) * 0.1,
      vy = cos (time * 1.5 + aRandom * 50.0) * 0.1,
      vz = sin (time * 1.0 + aRandom * 25.0) * 0.1\<rparr>"

text \<open>
  \<open>main()\<close> up to the final value of \<open>pos\<close> (the position handed to the model-view and
  projection matrices of the camera, which are outside this model); \<open>None\<close> where the
  \<open>pow\<close> of \<open>easeOutCubic\<close> is undefined.
\<close>

definition vertexPos :: "real \<Rightarrow> real \<Rightarrow> Vector3 \<Rightarrow> Vector3 \<Rightarrow> real \<Rightarrow> Vector3 option" where
  "vertexPos time progress aChaosPos aTargetPos aRandom =
     (case easeOutCubic progress of
        None \<Rightarrow> None
      | Some easeProgress \<Rightarrow>
          (let pos = mix aChaosPos aTargetPos easeProgress
           in if progress > 0.9
              then Some (vadd pos (vscale (noise time aRandom) 0.5))
              else Some (vadd pos (vscale (noise time aRandom) 2.0))))"

section \<open>Per-frame updates\<close>

text \<open>The per-class remaps of the progress in \<open>Ornaments\<close>, \<open>useFrame\<close>.\<close>

definition boxProgress :: "real \<Rightarrow> real" where
  "boxProgress p = clamp ((p - 0.1) * 1.1) 0 1"

definition lightProgress :: "real \<Rightarrow> real" where
  "lightProgress p = clamp (p * 1.2) 0 1"

text \<open>The callback of \<open>balls.forEach\<close>.\<close>

definition updateBall :: "bool \<Rightarrow> real \<Rightarrow> OrnamentData \<Rightarrow> nat \<Rightarrow> OrnamentsState \<Rightarrow> OrnamentsState" where
  "updateBall isForming time data i s =
     (let p = currentProgress s;
          t0 = lerpVectors (chaosPos data) (targetPos data) p;
          t1 = (if p < 0.99
                then (let ty = t0\<lparr>vy := vy t0 + sin (time + real i) * 0.05 * (1 - p)\<rparr>
                      in ty\<lparr>vx := vx ty + cos (time + real i) * 0.05 * (1 - p)\<rparr>)
                else t0);
          d0 = (dummy s)\<lparr>position := t1\<rparr>;
          d1 = d0\<lparr>rotation := rotationSet (ex (targetRot data) + (1 - p) * time)
                                           (ey (targetRot data) + (1 - p) * time)
                                           (ez (targetRot data))\<rparr>;
          d2 = d1\<lparr>objScale := setScalar (scale data * p)\<rparr>;
          d3 = (if \<not> isForming \<and> p < 0.1
                then d2\<lparr>objScale := setScalar (scale data * p)\<rparr>
                else d2\<lparr>objScale := setScalar (scale data)\<rparr>);
          d4 = updateMatrix d3
      in s\<lparr>tempVec3 := t1, dummy := d4,
            ballMesh := map_option (setMatrixAt i (matrix d4)) (ballMesh s)\<rparr>)"

text \<open>The callback of \<open>boxes.forEach\<close>.\<close>

definition updateBox :: "real \<Rightarrow> OrnamentData \<Rightarrow> nat \<Rightarrow> OrnamentsState \<Rightarrow> OrnamentsState" where
  "updateBox time data i s =
     (let p = boxProgress (currentProgress s);
          t0 = lerpVectors (chaosPos data) (targetPos data) p;
          d0 = (dummy s)\<lparr>position := t0\<rparr>;
          d1 = d0\<lparr>rotation := rotationSet (ex (targetRot data) + (1 - p) * sin time)
                                           (ey (targetRot data) + (1 - p) * time * 0.5)
                                           (ez (targetRot data))\<rparr>;
          d2 = d1\<lparr>objScale := setScalar (scale data)\<rparr>;
          d3 = updateMatrix d2
      in s\<lparr>tempVec3 := t0, dummy := d3,
            boxMesh := map_option (setMatrixAt i (matrix d3)) (boxMesh s)\<rparr>)"

text \<open>The callback of \<open>lights.forEach\<close>.\<close>

definition updateLight :: "real \<Rightarrow> OrnamentData \<Rightarrow> nat \<Rightarrow> OrnamentsState \<Rightarrow> OrnamentsState" where
  "updateLight time data i s =
     (let p = lightProgress (currentProgress s);
          t0 = lerpVectors (chaosPos data) (targetPos data) p;
          d0 = (dummy s)\<lparr>position := t0\<rparr>;
          d1 = d0\<lparr>objScale := setScalar (scale data * (0.8 + 0.4 * sin (time * 5 + real i)))\<rparr>;
          d2 = d1\<lparr>rotation := rotationSet 0 0 0\<rparr>;
          d3 = updateMatrix d2
      in s\<lparr>tempVec3 := t0, dummy := d3,
            lightMesh := map_option (setMatrixAt i (matrix d3)) (lightMesh s)\<rparr>)"

definition markMatrix :: "InstancedMesh option \<Rightarrow> InstancedMesh option" where
  "markMatrix m = map_option (\<lambda>mesh. mesh\<lparr>matrixNeedsUpdate := True\<rparr>) m"

text \<open>
  The three blocks of the frame callback of \<open>Ornaments\<close> (\<open>UPDATE BALLS\<close>,
  \<open>UPDATE BOXES\<close>, \<open>UPDATE LIGHTS\<close>): each runs only when its mesh ref is set, updates
  every instance and then marks the matrix buffer once.
\<close>

definition updateBalls :: "bool \<Rightarrow> real \<Rightarrow> OrnamentsState \<Rightarrow> OrnamentsState" where
  "updateBalls isForming time s =
     (if ballMesh s \<noteq> None
      then (let s' = forEach (updateBall isForming time) (balls s) s
            in s'\<lparr>ballMesh := markMatrix (ballMesh s')\<rparr>)
      else s)"

definition updateBoxes :: "real \<Rightarrow> OrnamentsState \<Rightarrow> OrnamentsState" where
  "updateBoxes time s =
     (if boxMesh s \<noteq> None
      then (let s' = forEach (updateBox time) (boxes s) s
            in s'\<lparr>boxMesh := markMatrix (boxMesh s')\<rparr>)
      else s)"

definition updateLights :: "real \<Rightarrow> OrnamentsState \<Rightarrow> OrnamentsState" where
  "updateLights time s =
     (if lightMesh s \<noteq> None
      then (let s' = forEach (updateLight time) (lights s) s
            in s'\<lparr>lightMesh := markMatrix (lightMesh s')\<rparr>)
      else s)"

text \<open>
  The frame callback of \<open>Ornaments\<close>: \<open>treeState\<close> is the prop of the current render,
  \<open>time\<close> is \<open>state.clock.elapsedTime\<close>, \<open>delta\<close> the frame's duration.
\<close>

definition ornamentsFrame :: "TreeState \<Rightarrow> real \<Rightarrow> real \<Rightarrow> OrnamentsState \<Rightarrow> OrnamentsState" where
  "ornamentsFrame treeState time delta s =
     (let isForming = (treeState = FORMED);
          s0 = s\<lparr>currentProgress := ornamentsAdvance treeState delta (currentProgress s)\<rparr>;
          s1 = updateBalls isForming time s0;
          s2 = updateBoxes time s1;
          s3 = updateLights time s2
      in s3)"

text \<open>
  The \<open>useLayoutEffect\<close> of \<open>Ornaments\<close>, which sets the instance colours once. Each
  \<open>setColorAt\<close> goes through a non-null assertion on the mesh ref, and the flag is set
  through a non-null assertion on the colour buffer: with a \<open>null\<close> ref and a non-empty
  table, or with a mesh whose colour buffer is still \<open>null\<close> after the loop, the effect
  throws (\<open>None\<close>).
\<close>

definition setColors :: "OrnamentData list \<Rightarrow> InstancedMesh option \<Rightarrow> InstancedMesh option option" where
  "setColors table m =
     (case m of
        None \<Rightarrow> (if table = [] then Some None else None)
      | Some mesh \<Rightarrow>
          (let mesh' = forEach (\<lambda>data i. setColorAt i (color data)) table mesh
           in case instanceColor mesh' of
                None \<Rightarrow> None
              | Some colors \<Rightarrow> Some (Some (mesh'\<lparr>colorNeedsUpdate := True\<rparr>))))"

definition setInitialColors :: "OrnamentsState \<Rightarrow> OrnamentsState option" where
  "setInitialColors s =
     (case setColors (balls s) (ballMesh s) of
        None \<Rightarrow> None
      | Some bm \<Rightarrow>
          (case setColors (boxes s) (boxMesh s) of
             None \<Rightarrow> None
           | Some xm \<Rightarrow>
               (case setColors (lights s) (lightMesh s) of
                  None \<Rightarrow> None
                | Some lm \<Rightarrow> Some (s\<lparr>ballMesh := bm, boxMesh := xm, lightMesh := lm\<rparr>))))"

text \<open>The frame callback of \<open>TreeFoliage\<close>.\<close>

definition foliageFrame :: "TreeState \<Rightarrow> real \<Rightarrow> real \<Rightarrow> FoliageState \<Rightarrow> FoliageState" where
  "foliageFrame treeState time delta s =
     (case material s of
        None \<Rightarrow> s
      | Some uniforms \<Rightarrow>
          (let p = foliageAdvance treeState delta (foliageProgress s)
           in s\<lparr>foliageProgress := p,
                 material := Some (uniforms\<lparr>uProgress := p, uTime := time\<rparr>)\<rparr>))"

text \<open>A run of frames, each with the mode, the clock and the duration it is called with.\<close>

primrec ornamentsFrames :: "(TreeState \<times> real \<times> real) list \<Rightarrow> OrnamentsState \<Rightarrow> OrnamentsState" where
  "ornamentsFrames [] s = s"
| "ornamentsFrames (f # fs) s =
     ornamentsFrames fs (ornamentsFrame (fst f) (fst (snd f)) (snd (snd f)) s)"

primrec foliageFrames :: "(TreeState \<times> real \<times> real) list \<Rightarrow> FoliageState \<Rightarrow> FoliageState" where
  "foliageFrames [] s = s"
| "foliageFrames (f # fs) s =
     foliageFrames fs (foliageFrame (fst f) (fst (snd f)) (snd (snd f)) s)"

section \<open>Notions used to state the properties\<close>

text \<open>
  The distance of a point from the tree's axis, the radius of the tree's cone at a
  height, and the distance of a point from the centre of the chaos cloud (the origin
  lifted by 10).
\<close>

definition lateral :: "Vector3 \<Rightarrow> real" where
  "lateral v = sqrt ((vx v)\<^sup>2 + (vz v)\<^sup>2)"

definition coneRadius :: "real \<Rightarrow> real" where
  "coneRadius y = (1 - y / TREE_HEIGHT) * TREE_RADIUS"

definition chaosRadius :: "Vector3 \<Rightarrow> real" where
  "chaosRadius v = sqrt ((vx v)\<^sup>2 + (vy v - 10)\<^sup>2 + (vz v)\<^sup>2)"

text \<open>
  The specification's chaos sampling: the direction of the inverse-CDF angles
  \<open>\<theta> = 2\<pi>u\<close>, \<open>\<phi> = acos(2v - 1)\<close>, scaled by a radius \<open>r\<close> and lifted by 10.
\<close>

definition spherePoint :: "real \<Rightarrow> real \<Rightarrow> real \<Rightarrow> Vector3" where
  "spherePoint r u v =
     \<lparr>vx = r * sin (arccos (2 * v - 1)) * cos (2 * pi * u),
      vy = r * sin (arccos (2 * v - 1)) * sin (2 * pi * u) + 10,
      vz = r * cos (arccos (2 * v - 1))\<rparr>"

text \<open>The two positions the foliage loop writes for a particle whose draws start at \<open>k\<close>.\<close>

definition needleChaos :: "(nat \<Rightarrow> real) \<Rightarrow> nat \<Rightarrow> Vector3" where
  "needleChaos random k = spherePoint (25 * root 3 (random (k + 2))) (random k) (random (k + 1))"

definition needleTarget :: "(nat \<Rightarrow> real) \<Rightarrow> nat \<Rightarrow> Vector3" where
  "needleTarget random k =
     \<lparr>vx = cos (random (k + 4) * pi * 2) * (sqrt (random (k + 5)) * ((1 - random (k + 3)) * TREE_RADIUS)),
      vy = random (k + 3) * TREE_HEIGHT,
      vz = sin (random (k + 4) * pi * 2) * (sqrt (random (k + 5)) * ((1 - random (k + 3)) * TREE_RADIUS))\<rparr>"

text \<open>
  The number of draws one pass of the loop of \<open>generateOrnamentData\<close> makes: the palette
  draw is skipped for a light.
\<close>

definition drawsPerOrnament :: "OrnamentType \<Rightarrow> nat" where
  "drawsPerOrnament type = (if type = light_type then 8 else 9)"

text \<open>A source of draws for concrete runs: \<open>Math.random()\<close> returning 0 every time.\<close>

definition zeroDraws :: "nat \<Rightarrow> real" where
  "zeroDraws k = 0"

text \<open>
  Two tables of ornament records agree on every field except \<open>speed\<close> when they are
  equal once every \<open>speed\<close> is overwritten with the same value; two component states
  agree up to \<open>speed\<close> when their tables do and everything else is equal.
\<close>

definition speedless :: "OrnamentData \<Rightarrow> OrnamentData" where
  "speedless data = data\<lparr>speed := 0\<rparr>"

definition stripSpeed :: "OrnamentsState \<Rightarrow> OrnamentsState" where
  "stripSpeed s = s\<lparr>balls := map speedless (balls s),
                      boxes := map speedless (boxes s),
                      lights := map speedless (lights s)\<rparr>"

definition sameExceptSpeed :: "OrnamentsState \<Rightarrow> OrnamentsState \<Rightarrow> bool" where
  "sameExceptSpeed s s' = (stripSpeed s = stripSpeed s')"

text \<open>What is rendered of a component state: the three meshes.\<close>

definition rendered ::
  "OrnamentsState \<Rightarrow> InstancedMesh option \<times> InstancedMesh option \<times> InstancedMesh option" where
  "rendered s = (ballMesh s, boxMesh s, lightMesh s)"

text \<open>
  A small mounted component for concrete runs: one ball, one box and one light, as
  \<open>generateOrnamentData\<close> makes them from draws that are all 0 but with the given value
  in the \<open>speed\<close> field of each, and meshes of one instance each.
\<close>

definition exampleMesh :: InstancedMesh where
  "exampleMesh =
     \<lparr>instanceMatrix = [Compose (setScalar 0) (rotationSet 0 0 0) (setScalar 1)],
      matrixNeedsUpdate = False,
      instanceColor = None,
      colorNeedsUpdate = False\<rparr>"

definition exampleOrnaments :: "real \<Rightarrow> OrnamentsState" where
  "exampleOrnaments sp =
     \<lparr>balls = map (\<lambda>d. d\<lparr>speed := sp\<rparr>) (generateOrnamentData 1 ball_type zeroDraws),
      boxes = map (\<lambda>d. d\<lparr>speed := sp\<rparr>) (generateOrnamentData 1 box_type zeroDraws),
      lights = map (\<lambda>d. d\<lparr>speed := sp\<rparr>) (generateOrnamentData 1 light_type zeroDraws),
      currentProgress = 0,
      ballMesh = Some exampleMesh,
      boxMesh = Some exampleMesh,
      lightMesh = Some exampleMesh,
      tempVec3 = setScalar 0,
      dummy = \<lparr>position = setScalar 0, rotation = rotationSet 0 0 0, objScale = setScalar 1,
               matrix = Compose (setScalar 0) (rotationSet 0 0 0) (setScalar 1)\<rparr>\<rparr>"

text \<open>
  A mounted foliage component for concrete runs: one particle generated from draws that
  are all 0, progress 0, and the material's uniforms at their initial values.
\<close>

definition exampleFoliage :: FoliageState where
  "exampleFoliage =
     \<lparr>geometry = generateFoliage 1 zeroDraws,
      foliageProgress = 0,
      material = Some \<lparr>uTime = 0, uProgress = 0\<rparr>\<rparr>"

section \<open>Theorems\<close>

subsection \<open>Helper facts about the progress step\<close>






subsection \<open>Progress remaps\<close>

text \<open>
  C2 (as amended). The boxes remap sends 0 to 0 and 1 to 0.99, is non-decreasing and
  stays in [0,1]; the lights remap is non-decreasing, stays in [0,1], is at least the
  progress for every progress below 1, and sends 1 to 1.
\<close>

theorem remap_properties:
  "boxProgress 0 = 0 \<and> boxProgress 1 = 99 / 100
   \<and> (p \<le> q \<longrightarrow> boxProgress p \<le> boxProgress q)
   \<and> 0 \<le> boxProgress p \<and> boxProgress p \<le> 1
   \<and> (p \<le> q \<longrightarrow> lightProgress p \<le> lightProgress q)
   \<and> 0 \<le> lightProgress p \<and> lightProgress p \<le> 1
   \<and> (p < 1 \<longrightarrow> p \<le> lightProgress p)
   \<and> lightProgress 1 = 1"
  by (auto simp: boxProgress_def lightProgress_def clamp_def min_def max_def)

theorem remap_properties_witness:
  "(1 / 2 :: real) \<le> 3 / 5 \<and> (1 / 2 :: real) < 1
   \<and> boxProgress (1 / 2) \<le> boxProgress (3 / 5)
   \<and> lightProgress (1 / 2) \<le> lightProgress (3 / 5)
   \<and> 1 / 2 \<le> lightProgress (1 / 2)"
  using remap_properties [of "1 / 2" "3 / 5"] by simp

text \<open>
  C2 as stated fails at the upper end of the boxes remap: \<open>(1 - 0.1) * 1.1\<close> is 0.99,
  not 1.
\<close>

theorem box_remap_counterexample: "\<not> (boxProgress 1 = 1)"
  by (simp add: boxProgress_def clamp_def)

subsection \<open>Number of generated records\<close>

lemma length_generateLoop:
  "length (generateLoop count type random i k data) = length data + nat (count - i)"
proof (induction count type random i k data rule: generateLoop.induct)
  case (1 count type random i k data)
  show ?case
  proof (cases "i < count")
    case True
    then show ?thesis using 1 by (subst generateLoop.simps) simp
  next
    case False
    then show ?thesis by (subst generateLoop.simps) simp
  qed
qed

lemma length_foliageLoop:
  "length (chaosPositions (foliageLoop count random i k g)) = length (chaosPositions g)
   \<and> length (targetPositions (foliageLoop count random i k g)) = length (targetPositions g)
   \<and> length (randoms (foliageLoop count random i k g)) = length (randoms g)"
proof (induction count random i k g rule: foliageLoop.induct)
  case (1 count random i k g)
  show ?case
  proof (cases "i < count")
    case True
    then show ?thesis using 1
      by (subst (1 2 3) foliageLoop.simps) (simp add: generateNeedle_def Let_def)
  next
    case False
    then show ?thesis by (subst (1 2 3) foliageLoop.simps) simp
  qed
qed

text \<open>
  C8. \<open>generateOrnamentData\<close> returns exactly \<open>count\<close> records for every count and every
  ornament class (none for a count of zero or below), and the empty list for count 0;
  the foliage generation, run with a count \<open>n\<close>, returns buffers for exactly \<open>n\<close>
  particles, and empty buffers for \<open>n = 0\<close>. So the component's tables hold 200 balls,
  50 boxes, 300 lights and 15000 foliage particles. The model has no error value:
  neither function can throw.
\<close>

theorem generator_count:
  "length (generateOrnamentData count type random) = nat count
   \<and> generateOrnamentData 0 type random = []
   \<and> length (generateOrnamentData BALL_COUNT ball_type random) = 200
   \<and> length (generateOrnamentData BOX_COUNT box_type random) = 50
   \<and> length (generateOrnamentData LIGHT_COUNT light_type random) = 300
   \<and> length (randoms (foliageGeometry random)) = 15000
   \<and> length (chaosPositions (generateFoliage n random)) = n * 3
   \<and> length (targetPositions (generateFoliage n random)) = n * 3
   \<and> length (randoms (generateFoliage n random)) = n
   \<and> generateFoliage 0 random = \<lparr>chaosPositions = [], targetPositions = [], randoms = []\<rparr>"
proof -
  have "length (generateOrnamentData c t random) = nat c" for c t
    by (simp add: generateOrnamentData_def length_generateLoop)
  moreover have "generateOrnamentData 0 type random = []"
    by (simp add: generateOrnamentData_def generateLoop.simps)
  moreover have "generateFoliage 0 random = \<lparr>chaosPositions = [], targetPositions = [], randoms = []\<rparr>"
    by (simp add: generateFoliage_def foliageLoop.simps)
  ultimately show ?thesis
    by (simp add: generateFoliage_def foliageGeometry_def length_foliageLoop
        BALL_COUNT_def BOX_COUNT_def LIGHT_COUNT_def COUNT_def)
qed

subsection \<open>Geometry of the generated positions\<close>

lemma polar_sq:
  fixes c s r :: real
  assumes "c\<^sup>2 + s\<^sup>2 = 1"
  shows "(c * r)\<^sup>2 + (s * r)\<^sup>2 = r\<^sup>2"
proof -
  have "(c * r)\<^sup>2 + (s * r)\<^sup>2 = (c\<^sup>2 + s\<^sup>2) * r\<^sup>2"
    by (simp add: power_mult_distrib algebra_simps)
  then show ?thesis using assms by simp
qed

lemma sphere_sq:
  fixes ct st cp sp r :: real
  assumes "ct\<^sup>2 + st\<^sup>2 = 1" and "cp\<^sup>2 + sp\<^sup>2 = 1"
  shows "(r * sp * ct)\<^sup>2 + (r * sp * st)\<^sup>2 + (r * cp)\<^sup>2 = r\<^sup>2"
proof -
  have "(r * sp * ct)\<^sup>2 + (r * sp * st)\<^sup>2 + (r * cp)\<^sup>2
        = r\<^sup>2 * (sp\<^sup>2 * (ct\<^sup>2 + st\<^sup>2) + cp\<^sup>2)"
    by (simp add: power_mult_distrib algebra_simps)
  also have "\<dots> = r\<^sup>2 * (cp\<^sup>2 + sp\<^sup>2)" using assms(1) by (simp add: add.commute)
  finally show ?thesis using assms(2) by simp
qed

lemma lateral_polar: "lateral \<lparr>vx = cos a * r, vy = y, vz = sin a * r\<rparr> = \<bar>r\<bar>"
  using polar_sq [of "cos a" "sin a" r] by (simp add: lateral_def)

lemma chaosRadius_spherePoint: "chaosRadius (spherePoint r u v) = \<bar>r\<bar>"
  using sphere_sq [of "cos (2 * pi * u)" "sin (2 * pi * u)" "cos (arccos (2 * v - 1))"
      "sin (arccos (2 * v - 1))" r]
  by (simp add: chaosRadius_def spherePoint_def)

lemma generateLoop_set:
  "d \<in> set (generateLoop count type random i k data) \<Longrightarrow>
   d \<in> set data \<or> (\<exists>k'. d = fst (generateOrnament type random k'))"
proof (induction count type random i k data rule: generateLoop.induct)
  case (1 count type random i k data)
  show ?case
  proof (cases "i < count")
    case True
    with "1.prems" have "d \<in> set (generateLoop count type random (i + 1)
        (snd (generateOrnament type random k)) (data @ [fst (generateOrnament type random k)]))"
      by (subst (asm) generateLoop.simps) simp
    from "1.IH" [OF True this] show ?thesis by auto
  next
    case False
    with "1.prems" show ?thesis by (subst (asm) generateLoop.simps) simp
  qed
qed

lemma generateOrnamentData_set:
  "d \<in> set (generateOrnamentData count type random) \<Longrightarrow>
   \<exists>k. d = fst (generateOrnament type random k)"
  using generateLoop_set [of d count type random 0 0 "[]"]
  by (simp add: generateOrnamentData_def)

lemma ornament_chaosPos:
  "chaosPos (fst (generateOrnament type random k))
   = spherePoint (20 + random (k + 2) * 15) (random k) (random (k + 1))"
  by (simp add: generateOrnament_def spherePoint_def Let_def)

lemma ornament_targetPos:
  "targetPos (fst (generateOrnament type random k))
   = \<lparr>vx = cos (random (k + 3) * pi * 10 + random (k + 4) * pi * 2)
            * ((1 - random (k + 3)) * TREE_RADIUS * (if type = light_type then 1.05 else 0.9)),
      vy = random (k + 3) * TREE_HEIGHT,
      vz = sin (random (k + 3) * pi * 10 + random (k + 4) * pi * 2)
            * ((1 - random (k + 3)) * TREE_RADIUS * (if type = light_type then 1.05 else 0.9))\<rparr>"
  by (simp add: generateOrnament_def Let_def)

lemma coneRadius_height: "coneRadius (h * TREE_HEIGHT) = (1 - h) * TREE_RADIUS"
  by (simp add: coneRadius_def TREE_HEIGHT_def)

lemma ornament_target_bounds:
  fixes type :: OrnamentType
  assumes h: "0 \<le> random (k + 3)" "random (k + 3) < 1"
  defines "t \<equiv> targetPos (fst (generateOrnament type random k))"
  shows "0 \<le> vy t" and "vy t \<le> TREE_HEIGHT" and "0 \<le> coneRadius (vy t)"
    and "lateral t = (if type = light_type then 1.05 else 0.9) * coneRadius (vy t)"
proof -
  show "0 \<le> vy t" "vy t \<le> TREE_HEIGHT"
    using h by (simp_all add: t_def ornament_targetPos TREE_HEIGHT_def)
  show "0 \<le> coneRadius (vy t)"
    using h by (simp add: t_def ornament_targetPos coneRadius_height TREE_RADIUS_def)
  have "0 \<le> (1 - random (k + 3)) * TREE_RADIUS * (if type = light_type then 1.05 else 0.9)"
    using h by (simp add: TREE_RADIUS_def)
  then show "lateral t = (if type = light_type then 1.05 else 0.9) * coneRadius (vy t)"
    unfolding t_def ornament_targetPos lateral_polar
    by (simp add: coneRadius_height)
qed

lemma generateNeedle_target:
  assumes "i * 3 + 2 < length (targetPositions g)"
  shows "attribute3 (targetPositions (generateNeedle random k i g)) j
         = (if j = i then needleTarget random k else attribute3 (targetPositions g) j)"
  using assms
  by (simp add: generateNeedle_def Let_def attribute3_def needleTarget_def nth_list_update)

lemma generateNeedle_chaos:
  assumes "i * 3 + 2 < length (chaosPositions g)"
  shows "attribute3 (chaosPositions (generateNeedle random k i g)) j
         = (if j = i then needleChaos random k else attribute3 (chaosPositions g) j)"
  using assms
  by (simp add: generateNeedle_def Let_def attribute3_def needleChaos_def spherePoint_def nth_list_update)

lemma length_generateNeedle:
  "length (chaosPositions (generateNeedle random k i g)) = length (chaosPositions g)"
  "length (targetPositions (generateNeedle random k i g)) = length (targetPositions g)"
  by (simp_all add: generateNeedle_def Let_def)

lemma foliageLoop_attributes:
  assumes "length (chaosPositions g) = count * 3" "length (targetPositions g) = count * 3"
    and "j < count"
  shows "attribute3 (chaosPositions (foliageLoop count random i k g)) j
         = (if i \<le> j then needleChaos random (k + 7 * (j - i)) else attribute3 (chaosPositions g) j)
     \<and> attribute3 (targetPositions (foliageLoop count random i k g)) j
         = (if i \<le> j then needleTarget random (k + 7 * (j - i)) else attribute3 (targetPositions g) j)"
  using assms
proof (induction count random i k g rule: foliageLoop.induct)
  case (1 count random i k g)
  show ?case
  proof (cases "i < count")
    case True
    let ?g = "generateNeedle random k i g"
    have len: "length (chaosPositions ?g) = count * 3" "length (targetPositions ?g) = count * 3"
      using "1.prems" by (simp_all add: length_generateNeedle)
    have room: "i * 3 + 2 < length (chaosPositions g)" "i * 3 + 2 < length (targetPositions g)"
      using True "1.prems" by simp_all
    note IH = "1.IH" [OF True len "1.prems"(3)]
    have step: "foliageLoop count random i k g = foliageLoop count random (i + 1) (k + 7) ?g"
      using True by (subst foliageLoop.simps) simp
    show ?thesis
    proof (cases "i + 1 \<le> j")
      case True
      then have "k + 7 + 7 * (j - (i + 1)) = k + 7 * (j - i)" by simp
      then have "needleChaos random (k + 7 + 7 * (j - (i + 1))) = needleChaos random (k + 7 * (j - i))"
        and "needleTarget random (k + 7 + 7 * (j - (i + 1))) = needleTarget random (k + 7 * (j - i))"
        by (rule arg_cong)+
      with True IH show ?thesis unfolding step by simp
    next
      case False
      with IH show ?thesis unfolding step
        by (auto simp: generateNeedle_target [OF room(2)] generateNeedle_chaos [OF room(1)])
    qed
  next
    case False
    with "1.prems" show ?thesis by (subst (1 2) foliageLoop.simps) simp
  qed
qed

lemma generateFoliage_attributes:
  assumes "i < n"
  shows "attribute3 (chaosPositions (generateFoliage n random)) i = needleChaos random (7 * i)"
    and "attribute3 (targetPositions (generateFoliage n random)) i = needleTarget random (7 * i)"
  using foliageLoop_attributes [of "\<lparr>chaosPositions = replicate (n * 3) 0,
        targetPositions = replicate (n * 3) 0, randoms = replicate n 0\<rparr>" n i random 0 0] assms
  by (simp_all add: generateFoliage_def)

lemma needle_target_bounds:
  assumes h: "0 \<le> random (k + 3)" "random (k + 3) < 1"
    and q: "0 \<le> random (k + 5)" "random (k + 5) < 1"
  defines "t \<equiv> needleTarget random k"
  shows "0 \<le> vy t" and "vy t \<le> TREE_HEIGHT" and "lateral t \<le> coneRadius (vy t)"
proof -
  show "0 \<le> vy t" "vy t \<le> TREE_HEIGHT"
    using h by (simp_all add: t_def needleTarget_def TREE_HEIGHT_def)
  have c: "0 \<le> (1 - random (k + 3)) * TREE_RADIUS" using h by (simp add: TREE_RADIUS_def)
  have s: "0 \<le> sqrt (random (k + 5))" "sqrt (random (k + 5)) \<le> 1" using q by simp_all
  have "sqrt (random (k + 5)) * ((1 - random (k + 3)) * TREE_RADIUS)
        \<le> 1 * ((1 - random (k + 3)) * TREE_RADIUS)"
    using s c by (intro mult_right_mono) auto
  moreover have "0 \<le> sqrt (random (k + 5)) * ((1 - random (k + 3)) * TREE_RADIUS)"
    using s c by simp
  ultimately show "lateral t \<le> coneRadius (vy t)"
    unfolding t_def needleTarget_def lateral_polar
    by (simp add: coneRadius_height)
qed

lemma generateOrnamentData_one:
  "generateOrnamentData 1 type random = [fst (generateOrnament type random 0)]"
  by (simp add: generateOrnamentData_def generateLoop.simps)

lemma zeroDraws_range: "\<forall>k. 0 \<le> zeroDraws k \<and> zeroDraws k < 1"
  by (simp add: zeroDraws_def)

text \<open>
  C3 (as amended). With every draw of \<open>Math.random()\<close> in [0,1), the target position of
  every generated record has \<open>0 \<le> y \<le> TREE_HEIGHT\<close>. For a ball or a box the distance
  from the axis is 0.9 times the cone's radius at that height, and for a foliage
  particle it is at most the cone's radius, so these lie within the cone; for a light
  it is 1.05 times the cone's radius, just outside the cone's surface.
\<close>

theorem target_positions_in_cone:
  assumes "\<forall>k. 0 \<le> random k \<and> random k < 1"
  shows "(d \<in> set (generateOrnamentData count type random) \<longrightarrow>
            0 \<le> vy (targetPos d) \<and> vy (targetPos d) \<le> TREE_HEIGHT
            \<and> lateral (targetPos d)
                = (if type = light_type then 1.05 else 0.9) * coneRadius (vy (targetPos d))
            \<and> (type \<noteq> light_type \<longrightarrow> lateral (targetPos d) \<le> coneRadius (vy (targetPos d))))
     \<and> (i < n \<longrightarrow>
            0 \<le> vy (attribute3 (targetPositions (generateFoliage n random)) i)
            \<and> vy (attribute3 (targetPositions (generateFoliage n random)) i) \<le> TREE_HEIGHT
            \<and> lateral (attribute3 (targetPositions (generateFoliage n random)) i)
                \<le> coneRadius (vy (attribute3 (targetPositions (generateFoliage n random)) i)))"
proof (intro conjI impI)
  assume "d \<in> set (generateOrnamentData count type random)"
  then obtain k where d: "d = fst (generateOrnament type random k)"
    using generateOrnamentData_set by blast
  have h: "0 \<le> random (k + 3)" "random (k + 3) < 1" using assms by simp_all
  note b = ornament_target_bounds [where random = random and k = k and type = type, OF h, folded d]
  show "0 \<le> vy (targetPos d)" "vy (targetPos d) \<le> TREE_HEIGHT"
    "lateral (targetPos d) = (if type = light_type then 1.05 else 0.9) * coneRadius (vy (targetPos d))"
    by (rule b)+
  show "lateral (targetPos d) \<le> coneRadius (vy (targetPos d))" if "type \<noteq> light_type"
    using that b(3,4) by simp
next
  assume i: "i < n"
  have h: "0 \<le> random (7 * i + 3)" "random (7 * i + 3) < 1"
    and q: "0 \<le> random (7 * i + 5)" "random (7 * i + 5) < 1" using assms by simp_all
  note b = needle_target_bounds [where random = random and k = "7 * i", OF h q,
      folded generateFoliage_attributes(2) [OF i]]
  show "0 \<le> vy (attribute3 (targetPositions (generateFoliage n random)) i)"
    "vy (attribute3 (targetPositions (generateFoliage n random)) i) \<le> TREE_HEIGHT"
    "lateral (attribute3 (targetPositions (generateFoliage n random)) i)
      \<le> coneRadius (vy (attribute3 (targetPositions (generateFoliage n random)) i))"
    by (rule b)+
qed

theorem target_positions_in_cone_witness:
  "(\<forall>k. 0 \<le> zeroDraws k \<and> zeroDraws k < 1)
   \<and> fst (generateOrnament ball_type zeroDraws 0) \<in> set (generateOrnamentData 1 ball_type zeroDraws)
   \<and> ball_type \<noteq> light_type \<and> (0::nat) < 1
   \<and> lateral (targetPos (fst (generateOrnament ball_type zeroDraws 0)))
        \<le> coneRadius (vy (targetPos (fst (generateOrnament ball_type zeroDraws 0))))
   \<and> lateral (attribute3 (targetPositions (generateFoliage 1 zeroDraws)) 0)
        \<le> coneRadius (vy (attribute3 (targetPositions (generateFoliage 1 zeroDraws)) 0))"
  using target_positions_in_cone [OF zeroDraws_range,
      of "fst (generateOrnament ball_type zeroDraws 0)" 1 ball_type 0 1]
  by (simp add: generateOrnamentData_one zeroDraws_range)

text \<open>
  C3 as stated fails for lights: with every draw 0 the single light generated sits at
  height 0 at distance 6.3 from the axis, where the cone's radius is 6.
\<close>

theorem light_outside_cone_counterexample:
  "\<not> (lateral (targetPos (hd (generateOrnamentData 1 light_type zeroDraws)))
        \<le> coneRadius (vy (targetPos (hd (generateOrnamentData 1 light_type zeroDraws)))))"
proof -
  have h: "0 \<le> zeroDraws (0 + 3)" "zeroDraws (0 + 3) < 1" by (simp_all add: zeroDraws_def)
  have y: "vy (targetPos (fst (generateOrnament light_type zeroDraws 0))) = 0"
    by (simp add: ornament_targetPos zeroDraws_def)
  have c: "coneRadius 0 = 6" by (simp add: coneRadius_def TREE_RADIUS_def)
  show ?thesis
    using ornament_target_bounds(4) [where random = zeroDraws and k = 0 and type = light_type, OF h]
    by (simp add: generateOrnamentData_one y c)
qed

lemma generateOrnament_next:
  "snd (generateOrnament type random k) = k + drawsPerOrnament type"
  by (simp add: generateOrnament_def drawsPerOrnament_def Let_def)

lemma generateLoop_nth:
  "j < length data + nat (count - i) \<Longrightarrow>
   generateLoop count type random i k data ! j
   = (if j < length data then data ! j
      else fst (generateOrnament type random (k + (j - length data) * drawsPerOrnament type)))"
proof (induction count type random i k data rule: generateLoop.induct)
  case (1 count type random i k data)
  show ?case
  proof (cases "i < count")
    case True
    let ?d = "fst (generateOrnament type random k)"
    let ?k = "snd (generateOrnament type random k)"
    have step: "generateLoop count type random i k data
                = generateLoop count type random (i + 1) ?k (data @ [?d])"
      using True by (subst generateLoop.simps) simp
    have bound: "j < length (data @ [?d]) + nat (count - (i + 1))"
      using True "1.prems" by simp
    note IH = "1.IH" [OF True bound]
    consider "j < length data" | "j = length data" | "length data < j" by linarith
    then show ?thesis
    proof cases
      case 1
      then show ?thesis unfolding step IH by (simp add: nth_append)
    next
      case 2
      then show ?thesis unfolding step IH by simp
    next
      case 3
      then have s: "j - length data = Suc (j - Suc (length data))" by simp
      have "k + drawsPerOrnament type + (j - Suc (length data)) * drawsPerOrnament type
                 = k + (j - length data) * drawsPerOrnament type"
        by (subst s) simp
      then have "fst (generateOrnament type random
                   (k + drawsPerOrnament type + (j - Suc (length data)) * drawsPerOrnament type))
                 = fst (generateOrnament type random (k + (j - length data) * drawsPerOrnament type))"
        by (rule arg_cong)
      with 3 show ?thesis unfolding step IH by (simp add: generateOrnament_next)
    qed
  next
    case False
    with "1.prems" show ?thesis by (subst generateLoop.simps) simp
  qed
qed

lemma generateOrnamentData_nth:
  "j < nat count \<Longrightarrow>
   generateOrnamentData count type random ! j
   = fst (generateOrnament type random (j * drawsPerOrnament type))"
  using generateLoop_nth [of j "[]" count 0 type random 0]
  by (simp add: generateOrnamentData_def)

text \<open>
  C4 (as amended). With every draw in [0,1), the chaos position of every generated
  record is the sphere point of the specification's formula (angles \<open>2\<pi>u\<close> and
  \<open>acos(2v - 1)\<close>, lift 10) taken at the record's own first two draws \<open>u\<close>, \<open>v\<close> and at
  a radius computed from its third draw: \<open>20 + 15 * random\<close>, in the band [20,35), for
  a ball, a box or a light, and \<open>25 * cbrt(random)\<close>, in [0,25), for a foliage particle,
  which fills the ball and is not bounded away from zero. The distance from the lifted
  centre is exactly that radius. (Record \<open>j\<close> of an ornament table starts at draw
  \<open>9 * j\<close>, or \<open>8 * j\<close> for lights; foliage particle \<open>i\<close> starts at draw \<open>7 * i\<close>.)
\<close>

theorem chaos_positions_sampled:
  assumes "\<forall>k. 0 \<le> random k \<and> random k < 1"
  shows "(j < nat count \<longrightarrow>
            chaosPos (generateOrnamentData count type random ! j)
              = spherePoint (20 + random (j * drawsPerOrnament type + 2) * 15)
                  (random (j * drawsPerOrnament type))
                  (random (j * drawsPerOrnament type + 1))
            \<and> chaosRadius (chaosPos (generateOrnamentData count type random ! j))
              = 20 + random (j * drawsPerOrnament type + 2) * 15
            \<and> 20 \<le> chaosRadius (chaosPos (generateOrnamentData count type random ! j))
            \<and> chaosRadius (chaosPos (generateOrnamentData count type random ! j)) < 35)
     \<and> (i < n \<longrightarrow>
            attribute3 (chaosPositions (generateFoliage n random)) i
              = spherePoint (25 * root 3 (random (7 * i + 2))) (random (7 * i)) (random (7 * i + 1))
            \<and> chaosRadius (attribute3 (chaosPositions (generateFoliage n random)) i)
              = 25 * root 3 (random (7 * i + 2))
            \<and> 0 \<le> chaosRadius (attribute3 (chaosPositions (generateFoliage n random)) i)
            \<and> chaosRadius (attribute3 (chaosPositions (generateFoliage n random)) i) < 25)"
proof (intro conjI impI)
  assume j: "j < nat count"
  define k where "k = j * drawsPerOrnament type"
  define r where "r = 20 + random (k + 2) * 15"
  have r: "20 \<le> r" "r < 35" using assms [rule_format, of "k + 2"] by (simp_all add: r_def)
  show c: "chaosPos (generateOrnamentData count type random ! j)
        = spherePoint (20 + random (j * drawsPerOrnament type + 2) * 15)
            (random (j * drawsPerOrnament type)) (random (j * drawsPerOrnament type + 1))"
    by (simp add: generateOrnamentData_nth [OF j] ornament_chaosPos)
  show e: "chaosRadius (chaosPos (generateOrnamentData count type random ! j))
        = 20 + random (j * drawsPerOrnament type + 2) * 15"
    using r unfolding c chaosRadius_spherePoint by (simp add: r_def k_def)
  show "20 \<le> chaosRadius (chaosPos (generateOrnamentData count type random ! j))"
    "chaosRadius (chaosPos (generateOrnamentData count type random ! j)) < 35"
    using r unfolding e by (simp_all add: r_def k_def)
next
  assume i: "i < n"
  define r where "r = 25 * root 3 (random (7 * i + 2))"
  have "0 \<le> root 3 (random (7 * i + 2))" "root 3 (random (7 * i + 2)) < 1"
    using assms [rule_format, of "7 * i + 2"] by simp_all
  then have r: "0 \<le> r" "r < 25" by (simp_all add: r_def)
  show c: "attribute3 (chaosPositions (generateFoliage n random)) i
           = spherePoint (25 * root 3 (random (7 * i + 2))) (random (7 * i)) (random (7 * i + 1))"
    by (simp add: generateFoliage_attributes(1) [OF i] needleChaos_def)
  show e: "chaosRadius (attribute3 (chaosPositions (generateFoliage n random)) i)
           = 25 * root 3 (random (7 * i + 2))"
    using r unfolding c chaosRadius_spherePoint by (simp add: r_def)
  show "0 \<le> chaosRadius (attribute3 (chaosPositions (generateFoliage n random)) i)"
    "chaosRadius (attribute3 (chaosPositions (generateFoliage n random)) i) < 25"
    using r unfolding e by (simp_all add: r_def)
qed

theorem chaos_positions_sampled_witness:
  "(\<forall>k. 0 \<le> zeroDraws k \<and> zeroDraws k < 1)
   \<and> (0::nat) < nat 1 \<and> (0::nat) < 1
   \<and> chaosRadius (chaosPos (generateOrnamentData 1 ball_type zeroDraws ! 0)) = 20
   \<and> chaosRadius (attribute3 (chaosPositions (generateFoliage 1 zeroDraws)) 0) = 0"
proof -
  note t = chaos_positions_sampled [OF zeroDraws_range, of 0 1 ball_type 0 1]
  have a: "(0::nat) < nat 1" "(0::nat) < 1" by simp_all
  from t a have 1: "chaosRadius (chaosPos (generateOrnamentData 1 ball_type zeroDraws ! 0))
      = 20 + zeroDraws (0 * drawsPerOrnament ball_type + 2) * 15"
    by blast
  from t a have 2: "chaosRadius (attribute3 (chaosPositions (generateFoliage 1 zeroDraws)) 0)
      = 25 * root 3 (zeroDraws (7 * 0 + 2))"
    by blast
  have 3: "chaosRadius (chaosPos (generateOrnamentData 1 ball_type zeroDraws ! 0)) = 20"
    unfolding 1 by (simp add: zeroDraws_def)
  have 4: "chaosRadius (attribute3 (chaosPositions (generateFoliage 1 zeroDraws)) 0) = 0"
    unfolding 2 by (simp add: zeroDraws_def)
  from zeroDraws_range a 3 4 show ?thesis by (intro conjI)
qed

text \<open>
  C4 as stated fails for foliage: with every draw 0 the foliage particle is generated
  at the centre of the cloud, at radius 0.
\<close>

theorem foliage_radius_zero_counterexample:
  "\<not> (0 < chaosRadius (attribute3 (chaosPositions (generateFoliage 1 zeroDraws)) 0))"
proof -
  have "attribute3 (chaosPositions (generateFoliage 1 zeroDraws)) 0 = spherePoint 0 0 0"
    using generateFoliage_attributes(1) [of 0 1 zeroDraws]
    by (simp add: needleChaos_def zeroDraws_def)
  then show ?thesis by (simp add: chaosRadius_spherePoint)
qed

subsection \<open>The foliage vertex shader\<close>

lemma easeOutCubic_value: "x \<le> 1 \<Longrightarrow> easeOutCubic x = Some (1 - (1 - x) ^ 3)"
  by (simp add: easeOutCubic_def pow_def)

lemma mix_lerpVectors: "mix a b t = lerpVectors a b t"
  by (simp add: mix_def lerpVectors_def algebra_simps)

lemma noise_bounds:
  "\<bar>vx (noise time a)\<bar> \<le> 0.1 \<and> \<bar>vy (noise time a)\<bar> \<le> 0.1 \<and> \<bar>vz (noise time a)\<bar> \<le> 0.1"
  by (simp add: noise_def abs_mult)

text \<open>
  For a progress up to 1 the shader computes what the specification describes: the
  final position is the pre-noise position plus an offset; the pre-noise position is
  the linear interpolation between the particle's chaos and target coordinates at
  \<open>1 - (1 - progress)^3\<close>; the offset is the vector of three sinusoids of the clock and
  the particle's random phase, of amplitude 0.1 each, times 2 when \<open>progress \<le> 0.9\<close>
  and times 0.5 when \<open>progress > 0.9\<close>.
\<close>

lemma vertexPos_upto_1:
  assumes "progress \<le> 1"
  shows "vertexPos time progress aChaosPos aTargetPos aRandom
           = Some (vadd (mix aChaosPos aTargetPos (1 - (1 - progress) ^ 3))
                        (vscale (noise time aRandom) (if progress > 0.9 then 0.5 else 2.0)))
     \<and> mix aChaosPos aTargetPos (1 - (1 - progress) ^ 3)
           = lerpVectors aChaosPos aTargetPos (1 - (1 - progress) ^ 3)
     \<and> noise time aRandom
           = \<lparr>vx = sin (time * 2.0 + aRandom * 100.0) * 0.1,
              vy = cos (time * 1.5 + aRandom * 50.0) * 0.1,
              vz = sin (time * 1.0 + aRandom * 25.0) * 0.1\<rparr>
     \<and> \<bar>vx (vscale (noise time aRandom) (if progress > 0.9 then 0.5 else 2.0))\<bar>
           \<le> (if progress > 0.9 then 0.05 else 0.2)
     \<and> \<bar>vy (vscale (noise time aRandom) (if progress > 0.9 then 0.5 else 2.0))\<bar>
           \<le> (if progress > 0.9 then 0.05 else 0.2)
     \<and> \<bar>vz (vscale (noise time aRandom) (if progress > 0.9 then 0.5 else 2.0))\<bar>
           \<le> (if progress > 0.9 then 0.05 else 0.2)"
proof -
  have 1: "vertexPos time progress aChaosPos aTargetPos aRandom
           = Some (vadd (mix aChaosPos aTargetPos (1 - (1 - progress) ^ 3))
                        (vscale (noise time aRandom) (if progress > 0.9 then 0.5 else 2.0)))"
    using assms by (simp add: vertexPos_def easeOutCubic_value)
  have 2: "\<bar>vx (vscale (noise time aRandom) (if progress > 0.9 then 0.5 else 2.0))\<bar>
           \<le> (if progress > 0.9 then 0.05 else 0.2)"
    using noise_bounds [of time aRandom] by (simp add: vscale_def abs_mult)
  have 3: "\<bar>vy (vscale (noise time aRandom) (if progress > 0.9 then 0.5 else 2.0))\<bar>
           \<le> (if progress > 0.9 then 0.05 else 0.2)"
    using noise_bounds [of time aRandom] by (simp add: vscale_def abs_mult)
  have 4: "\<bar>vz (vscale (noise time aRandom) (if progress > 0.9 then 0.5 else 2.0))\<bar>
           \<le> (if progress > 0.9 then 0.05 else 0.2)"
    using noise_bounds [of time aRandom] by (simp add: vscale_def abs_mult)
  show ?thesis using 1 2 3 4 by (simp only: mix_lerpVectors noise_def simp_thms)
qed

text \<open>
  C5 (violated by the code). The claim is about every particle and every frame. One
  frame of \<open>TreeFoliage\<close> with mode Formed and \<open>delta = 1\<close>, from progress 0, writes
  \<open>uProgress = 1.5\<close> into the material; there \<open>easeOutCubic\<close> calls \<open>pow\<close> with the
  negative base \<open>-0.5\<close>, whose result GLSL leaves undefined, so the shader has no defined
  pre-noise position for the particle in that frame.
\<close>

theorem shader_undefined_after_overshoot:
  "map_option uProgress (material (foliageFrame FORMED 7 1 exampleFoliage)) = Some (3 / 2)
   \<and> map_option uTime (material (foliageFrame FORMED 7 1 exampleFoliage)) = Some 7
   \<and> easeOutCubic (3 / 2) = None
   \<and> vertexPos 7 (3 / 2)
        (attribute3 (chaosPositions (geometry (foliageFrame FORMED 7 1 exampleFoliage))) 0)
        (attribute3 (targetPositions (geometry (foliageFrame FORMED 7 1 exampleFoliage))) 0)
        (randoms (geometry (foliageFrame FORMED 7 1 exampleFoliage)) ! 0) = None"
proof -
  have e: "easeOutCubic (3 / 2) = None" by (simp add: easeOutCubic_def pow_def)
  have u: "material (foliageFrame FORMED 7 1 exampleFoliage) = Some \<lparr>uTime = 7, uProgress = 3 / 2\<rparr>"
    by (simp add: foliageFrame_def exampleFoliage_def foliageAdvance_def lerp_def tTarget_def Let_def)
  show ?thesis by (simp add: u e vertexPos_def)
qed

subsection \<open>The static tables during frame updates\<close>

lemma forEachFrom_invariant:
  assumes "\<And>x i s. P s \<Longrightarrow> P (f x i s)" and "P s"
  shows "P (forEachFrom f xs i s)"
  using assms(2) by (induction xs arbitrary: i s) (simp_all add: assms(1))

lemma forEach_invariant:
  assumes "\<And>x i s. P s \<Longrightarrow> P (f x i s)" and "P s"
  shows "P (forEach f xs s)"
  unfolding forEach_def using assms by (rule forEachFrom_invariant)

lemma updateBalls_tables:
  "balls (updateBalls isForming time s) = balls s
   \<and> boxes (updateBalls isForming time s) = boxes s
   \<and> lights (updateBalls isForming time s) = lights s
   \<and> currentProgress (updateBalls isForming time s) = currentProgress s"
proof -
  let ?P = "\<lambda>s'. balls s' = balls s \<and> boxes s' = boxes s \<and> lights s' = lights s
              \<and> currentProgress s' = currentProgress s"
  have "?P (forEach (updateBall isForming time) xs s)" for xs
    by (rule forEach_invariant) (simp_all add: updateBall_def Let_def)
  then show ?thesis by (simp add: updateBalls_def Let_def)
qed

lemma updateBoxes_tables:
  "balls (updateBoxes time s) = balls s
   \<and> boxes (updateBoxes time s) = boxes s
   \<and> lights (updateBoxes time s) = lights s
   \<and> currentProgress (updateBoxes time s) = currentProgress s"
proof -
  let ?P = "\<lambda>s'. balls s' = balls s \<and> boxes s' = boxes s \<and> lights s' = lights s
              \<and> currentProgress s' = currentProgress s"
  have "?P (forEach (updateBox time) xs s)" for xs
    by (rule forEach_invariant) (simp_all add: updateBox_def Let_def)
  then show ?thesis by (simp add: updateBoxes_def Let_def)
qed

lemma updateLights_tables:
  "balls (updateLights time s) = balls s
   \<and> boxes (updateLights time s) = boxes s
   \<and> lights (updateLights time s) = lights s
   \<and> currentProgress (updateLights time s) = currentProgress s"
proof -
  let ?P = "\<lambda>s'. balls s' = balls s \<and> boxes s' = boxes s \<and> lights s' = lights s
              \<and> currentProgress s' = currentProgress s"
  have "?P (forEach (updateLight time) xs s)" for xs
    by (rule forEach_invariant) (simp_all add: updateLight_def Let_def)
  then show ?thesis by (simp add: updateLights_def Let_def)
qed

lemma ornamentsFrame_tables:
  "balls (ornamentsFrame treeState time delta s) = balls s
   \<and> boxes (ornamentsFrame treeState time delta s) = boxes s
   \<and> lights (ornamentsFrame treeState time delta s) = lights s
   \<and> currentProgress (ornamentsFrame treeState time delta s)
       = ornamentsAdvance treeState delta (currentProgress s)"
  by (simp add: ornamentsFrame_def Let_def updateBalls_tables updateBoxes_tables updateLights_tables)

lemma ornamentsFrames_tables:
  "balls (ornamentsFrames fs s) = balls s
   \<and> boxes (ornamentsFrames fs s) = boxes s
   \<and> lights (ornamentsFrames fs s) = lights s"
  by (induction fs arbitrary: s) (simp_all add: ornamentsFrame_tables)

lemma foliageFrame_geometry: "geometry (foliageFrame treeState time delta s) = geometry s"
  by (simp add: foliageFrame_def Let_def split: option.split)

lemma foliageFrame_progress:
  "foliageProgress (foliageFrame treeState time delta s)
   = (if material s = None then foliageProgress s
      else foliageAdvance treeState delta (foliageProgress s))"
  by (simp add: foliageFrame_def Let_def split: option.split)

lemma foliageFrames_geometry: "geometry (foliageFrames fs s) = geometry s"
  by (induction fs arbitrary: s) (simp_all add: foliageFrame_geometry)

text \<open>
  C7. A step of zero duration returns the stored progress unchanged, for every stored
  value and either mode, in both controllers, and so a whole frame callback called with
  \<open>delta = 0\<close> leaves the progress ref of its component as it was; in particular
  progress 1 with the mode just flipped to Chaos stays 1.
\<close>

theorem advance_zero_dt:
  "ornamentsAdvance treeState 0 cur = cur \<and> foliageAdvance treeState 0 cur = cur
   \<and> ornamentsAdvance CHAOS 0 1 = 1 \<and> foliageAdvance CHAOS 0 1 = 1
   \<and> currentProgress (ornamentsFrame treeState time 0 s) = currentProgress s
   \<and> foliageProgress (foliageFrame treeState time 0 t) = foliageProgress t"
proof -
  have z: "ornamentsAdvance m 0 p = p" "foliageAdvance m 0 p = p" for m p
    by (simp_all add: ornamentsAdvance_def foliageAdvance_def lerp_def)
  show ?thesis by (simp add: z ornamentsFrame_tables foliageFrame_progress)
qed

text \<open>
  C1 (violated by the code). The claim wants every returned progress inside [0,1] and the
  distance to the target strictly decreasing for any fixed positive \<open>delta\<close>. The step
  is a \<open>lerp\<close> with factor \<open>delta * rate\<close> and no clamp: from progress 0 with mode
  Formed, one \<open>Ornaments\<close> step with \<open>delta = 2\<close> returns 1.6 and one \<open>TreeFoliage\<close> step
  with \<open>delta = 1\<close> returns 1.5, the frame callbacks store exactly these values in their
  progress refs, and with \<open>delta = 2.5\<close> the \<open>Ornaments\<close> step returns 2, which is as
  far from the target as the start was.
\<close>

theorem advance_overshoots_unit_interval:
  "ornamentsAdvance FORMED 2 0 = 8 / 5
   \<and> foliageAdvance FORMED 1 0 = 3 / 2
   \<and> currentProgress (ornamentsFrame FORMED 0 2 (exampleOrnaments 0)) = 8 / 5
   \<and> foliageProgress (foliageFrame FORMED 0 1 exampleFoliage) = 3 / 2
   \<and> \<not> (currentProgress (ornamentsFrame FORMED 0 2 (exampleOrnaments 0)) \<le> 1)
   \<and> \<not> (foliageProgress (foliageFrame FORMED 0 1 exampleFoliage) \<le> 1)
   \<and> \<not> (distanceAfter ornamentsAdvance FORMED (5 / 2) 1 0
           < distanceAfter ornamentsAdvance FORMED (5 / 2) 0 0)"
proof -
  have a: "ornamentsAdvance FORMED 2 0 = 8 / 5" "foliageAdvance FORMED 1 0 = 3 / 2"
    by (simp_all add: ornamentsAdvance_def foliageAdvance_def lerp_def tTarget_def)
  have b: "currentProgress (exampleOrnaments 0) = 0" "foliageProgress exampleFoliage = 0"
    "material exampleFoliage \<noteq> None"
    by (simp_all add: exampleOrnaments_def exampleFoliage_def)
  have c: "\<not> (distanceAfter ornamentsAdvance FORMED (5 / 2) 1 0
           < distanceAfter ornamentsAdvance FORMED (5 / 2) 0 0)"
    by (simp add: progressAfter_def distanceAfter_def ornamentsAdvance_def lerp_def tTarget_def)
  show ?thesis
    using c by (simp add: ornamentsFrame_tables foliageFrame_progress a b)
qed

text \<open>
  C9. Any number of frame updates, with any modes, clock values and durations, leaves
  the static particle tables as they were: the three ornament tables are the same
  lists of records (so every chaos position, target position, target rotation, colour,
  scale of every record, and the number of records of each class), and the three
  foliage buffers are the same.
\<close>

theorem frames_preserve_tables:
  "balls (ornamentsFrames fs s) = balls s
   \<and> boxes (ornamentsFrames fs s) = boxes s
   \<and> lights (ornamentsFrames fs s) = lights s
   \<and> length (balls (ornamentsFrames fs s)) = length (balls s)
   \<and> length (boxes (ornamentsFrames fs s)) = length (boxes s)
   \<and> length (lights (ornamentsFrames fs s)) = length (lights s)
   \<and> geometry (foliageFrames fs' t) = geometry t
   \<and> length (randoms (geometry (foliageFrames fs' t))) = length (randoms (geometry t))"
  by (simp add: ornamentsFrames_tables foliageFrames_geometry)

subsection \<open>The speed field\<close>

lemma forEachFrom_commute:
  assumes "\<And>x i s. f (g x) i (h s) = h (f x i s)"
  shows "forEachFrom f (map g xs) i (h s) = h (forEachFrom f xs i s)"
  by (induction xs arbitrary: i s) (simp_all add: assms)

lemma forEach_commute:
  assumes "\<And>x i s. f (g x) i (h s) = h (f x i s)"
  shows "forEach f (map g xs) (h s) = h (forEach f xs s)"
  unfolding forEach_def using assms by (rule forEachFrom_commute)

lemma updateBall_strip:
  "updateBall isForming time (speedless d) i (stripSpeed s) = stripSpeed (updateBall isForming time d i s)"
  by (simp add: updateBall_def stripSpeed_def speedless_def Let_def)

lemma updateBox_strip:
  "updateBox time (speedless d) i (stripSpeed s) = stripSpeed (updateBox time d i s)"
  by (simp add: updateBox_def stripSpeed_def speedless_def Let_def)

lemma updateLight_strip:
  "updateLight time (speedless d) i (stripSpeed s) = stripSpeed (updateLight time d i s)"
  by (simp add: updateLight_def stripSpeed_def speedless_def Let_def)

lemma stripSpeed_fields:
  "balls (stripSpeed s) = map speedless (balls s)"
  "boxes (stripSpeed s) = map speedless (boxes s)"
  "lights (stripSpeed s) = map speedless (lights s)"
  "ballMesh (stripSpeed s) = ballMesh s"
  "boxMesh (stripSpeed s) = boxMesh s"
  "lightMesh (stripSpeed s) = lightMesh s"
  "currentProgress (stripSpeed s) = currentProgress s"
  by (simp_all add: stripSpeed_def)

lemma stripSpeed_update:
  "stripSpeed (s\<lparr>ballMesh := m\<rparr>) = (stripSpeed s)\<lparr>ballMesh := m\<rparr>"
  "stripSpeed (s\<lparr>boxMesh := m\<rparr>) = (stripSpeed s)\<lparr>boxMesh := m\<rparr>"
  "stripSpeed (s\<lparr>lightMesh := m\<rparr>) = (stripSpeed s)\<lparr>lightMesh := m\<rparr>"
  "stripSpeed (s\<lparr>currentProgress := p\<rparr>) = (stripSpeed s)\<lparr>currentProgress := p\<rparr>"
  by (simp_all add: stripSpeed_def)

lemma updateBalls_strip:
  "updateBalls isForming time (stripSpeed s) = stripSpeed (updateBalls isForming time s)"
  by (simp add: updateBalls_def Let_def stripSpeed_fields stripSpeed_update
      forEach_commute [where f = "updateBall isForming time" and h = stripSpeed and g = speedless,
        OF updateBall_strip])

lemma updateBoxes_strip:
  "updateBoxes time (stripSpeed s) = stripSpeed (updateBoxes time s)"
  by (simp add: updateBoxes_def Let_def stripSpeed_fields stripSpeed_update
      forEach_commute [where f = "updateBox time" and h = stripSpeed and g = speedless,
        OF updateBox_strip])

lemma updateLights_strip:
  "updateLights time (stripSpeed s) = stripSpeed (updateLights time s)"
  by (simp add: updateLights_def Let_def stripSpeed_fields stripSpeed_update
      forEach_commute [where f = "updateLight time" and h = stripSpeed and g = speedless,
        OF updateLight_strip])

lemma ornamentsFrame_strip:
  "ornamentsFrame treeState time delta (stripSpeed s) = stripSpeed (ornamentsFrame treeState time delta s)"
  by (simp add: ornamentsFrame_def Let_def stripSpeed_fields stripSpeed_update [symmetric]
      updateBalls_strip updateBoxes_strip updateLights_strip)

lemma ornamentsFrames_strip:
  "ornamentsFrames fs (stripSpeed s) = stripSpeed (ornamentsFrames fs s)"
  by (induction fs arbitrary: s) (simp_all add: ornamentsFrame_strip)

lemma rendered_strip: "rendered (stripSpeed s) = rendered s"
  by (simp add: rendered_def stripSpeed_fields)

lemma forEachFrom_map: "forEachFrom f (map g xs) i s = forEachFrom (\<lambda>x. f (g x)) xs i s"
  by (induction xs arbitrary: i s) simp_all

lemma setColors_speedless: "setColors (map speedless table) m = setColors table m"
  by (simp add: setColors_def forEach_def forEachFrom_map speedless_def split: option.split)

lemma setInitialColors_strip:
  "setInitialColors (stripSpeed s) = map_option stripSpeed (setInitialColors s)"
  by (simp add: setInitialColors_def stripSpeed_fields setColors_speedless stripSpeed_update
      split: option.split)

text \<open>
  C10. The \<open>speed\<close> field is never rendered: for two component states whose tables
  agree on every field but \<open>speed\<close> and which are equal otherwise, any run of frame
  updates leaves the three meshes (every instance matrix, every instance colour and
  the update flags) equal and the states in agreement up to \<open>speed\<close>, and so does the
  effect that sets the instance colours.
\<close>

theorem speed_not_rendered:
  assumes "sameExceptSpeed s s'"
  shows "sameExceptSpeed (ornamentsFrames fs s) (ornamentsFrames fs s')
     \<and> rendered (ornamentsFrames fs s) = rendered (ornamentsFrames fs s')
     \<and> rel_option sameExceptSpeed (setInitialColors s) (setInitialColors s')
     \<and> map_option rendered (setInitialColors s) = map_option rendered (setInitialColors s')"
proof -
  from assms have eq: "stripSpeed s = stripSpeed s'" by (simp add: sameExceptSpeed_def)
  have f: "stripSpeed (ornamentsFrames fs s) = stripSpeed (ornamentsFrames fs s')"
    using eq by (simp add: ornamentsFrames_strip [symmetric])
  have c: "map_option stripSpeed (setInitialColors s) = map_option stripSpeed (setInitialColors s')"
    using eq by (simp add: setInitialColors_strip [symmetric])
  have 1: "sameExceptSpeed (ornamentsFrames fs s) (ornamentsFrames fs s')"
    using f by (simp add: sameExceptSpeed_def)
  have 2: "rendered (ornamentsFrames fs s) = rendered (ornamentsFrames fs s')"
    using arg_cong [OF f, of rendered] by (simp add: rendered_strip)
  have 3: "rel_option sameExceptSpeed (setInitialColors s) (setInitialColors s')"
    using c by (cases "setInitialColors s"; cases "setInitialColors s'") (simp_all add: sameExceptSpeed_def)
  have "map_option rendered (map_option stripSpeed (setInitialColors s))
        = map_option rendered (map_option stripSpeed (setInitialColors s'))"
    using c by simp
  then have 4: "map_option rendered (setInitialColors s) = map_option rendered (setInitialColors s')"
    by (simp add: option.map_comp comp_def rendered_strip)
  show ?thesis using 1 2 3 4 by simp
qed

lemma exampleOrnaments_same: "sameExceptSpeed (exampleOrnaments a) (exampleOrnaments b)"
  by (simp add: sameExceptSpeed_def stripSpeed_def exampleOrnaments_def speedless_def comp_def)

theorem speed_not_rendered_witness:
  "sameExceptSpeed (exampleOrnaments (3 / 2)) (exampleOrnaments 7)
   \<and> map speed (balls (exampleOrnaments (3 / 2))) = [3 / 2]
   \<and> map speed (balls (exampleOrnaments 7)) = [7]
   \<and> rendered (ornamentsFrames [(FORMED, 0, 1)] (exampleOrnaments (3 / 2)))
       = rendered (ornamentsFrames [(FORMED, 0, 1)] (exampleOrnaments 7))"
proof -
  have h: "sameExceptSpeed (exampleOrnaments (3 / 2)) (exampleOrnaments 7)"
    by (rule exampleOrnaments_same)
  from speed_not_rendered [OF h, of "[(FORMED, 0, 1)]"]
  have r: "rendered (ornamentsFrames [(FORMED, 0, 1)] (exampleOrnaments (3 / 2)))
       = rendered (ornamentsFrames [(FORMED, 0, 1)] (exampleOrnaments 7))"
    by (rule conjunct2 [THEN conjunct1])
  have a: "map speed (balls (exampleOrnaments (3 / 2))) = [3 / 2]"
    and b: "map speed (balls (exampleOrnaments 7)) = [7]"
    by (simp_all add: exampleOrnaments_def generateOrnamentData_one)
  from h a b r show ?thesis by (intro conjI)
qed

end
